theory Spec2Isabelle
  imports Main "HOL-Library.Sublist"
begin

section \<open>The simplified RAG pipeline of \<^verbatim>\<open>src/rag_pipeline.py\<close>\<close>

text \<open>
  The class \<^verbatim>\<open>SimpleRAGPipeline\<close> answers a question from a document retriever, falls
  back to Wikipedia when the retriever's text looks insufficient, and asks a language
  model for the final answer. The three collaborators (retriever, Wikipedia tool,
  language model) are external; they are modelled as functions over an explicit world
  state \<open>'w\<close>, so that two calls of the same collaborator may answer differently, and
  each of them either returns a value or raises.
\<close>

subsection \<open>Python values, strings and exceptions\<close>

text \<open>
  A Python \<^verbatim>\<open>str\<close> is a list of characters; a character stands for a code point
  below 256. Values read dynamically (a metadata entry, the \<^verbatim>\<open>content\<close> attribute of
  a model response) are \<^verbatim>\<open>None\<close> or a \<^verbatim>\<open>str\<close>.
\<close>

datatype pyval = PNone | PStr string

text \<open>An instance of a subclass of \<^verbatim>\<open>Exception\<close>, with its message.\<close>

datatype py_exception = PyException string

text \<open>Truthiness, and \<^verbatim>\<open>a or b\<close>, which yields \<open>a\<close> when it is truthy and \<open>b\<close> otherwise.\<close>

fun truthy :: "pyval \<Rightarrow> bool" where
  "truthy PNone = False"
| "truthy (PStr s) = (s \<noteq> [])"

definition py_or :: "pyval \<Rightarrow> pyval \<Rightarrow> pyval" where
  "py_or a b = (if truthy a then a else b)"

text \<open>\<^verbatim>\<open>str(v)\<close>, as an f-string field renders a value.\<close>

fun py_str :: "pyval \<Rightarrow> string" where
  "py_str PNone = ''None''"
| "py_str (PStr s) = s"

text \<open>\<^verbatim>\<open>m.get(k)\<close> on a dict: \<^verbatim>\<open>None\<close> for a missing key.\<close>

definition dict_get :: "(string \<rightharpoonup> pyval) \<Rightarrow> string \<Rightarrow> pyval" where
  "dict_get m k = (case m k of None \<Rightarrow> PNone | Some v \<Rightarrow> v)"

text \<open>The decimal rendering of a natural number, as \<^verbatim>\<open>f"{i}"\<close> prints an index.\<close>

definition digit_char :: "nat \<Rightarrow> char" where
  "digit_char d = char_of (48 + d)"

fun str_nat :: "nat \<Rightarrow> string" where
  "str_nat n = (if n < 10 then [digit_char n] else str_nat (n div 10) @ [digit_char (n mod 10)])"

declare str_nat.simps [simp del]

definition nl :: string where
  "nl = [CHR 0x0A]"

text \<open>\<^verbatim>\<open>sep.join(parts)\<close>.\<close>

fun py_join :: "string \<Rightarrow> string list \<Rightarrow> string" where
  "py_join sep [] = []"
| "py_join sep [x] = x"
| "py_join sep (x # y # ys) = x @ sep @ py_join sep (y # ys)"

text \<open>
  \<^verbatim>\<open>s.strip()\<close> removes the leading and trailing whitespace; below 256 the
  whitespace code points of Python are 9 to 13, 28 to 32, 133 and 160.
\<close>

definition is_space :: "char \<Rightarrow> bool" where
  "is_space c = (let n = (of_char c :: nat) in
     (9 \<le> n \<and> n \<le> 13) \<or> (28 \<le> n \<and> n \<le> 32) \<or> n = 133 \<or> n = 160)"

definition strip :: "string \<Rightarrow> string" where
  "strip s = rev (dropWhile is_space (rev (dropWhile is_space s)))"

text \<open>
  \<^verbatim>\<open>s.lower()\<close>: below 256 the upper-case letters are A to Z and the Latin-1 letters
  192 to 222 except the multiplication sign 215; each is 32 below its lower-case form.
\<close>

definition lower_char :: "char \<Rightarrow> char" where
  "lower_char c = (let n = (of_char c :: nat) in
     if (65 \<le> n \<and> n \<le> 90) \<or> (192 \<le> n \<and> n \<le> 222 \<and> n \<noteq> 215) then char_of (n + 32) else c)"

definition lower :: "string \<Rightarrow> string" where
  "lower s = map lower_char s"

subsection \<open>Documents and the formatted retriever text\<close>

text \<open>
  A retrieved document has a \<^verbatim>\<open>page_content\<close> and possibly a \<^verbatim>\<open>metadata\<close> dict;
  \<open>None\<close> stands for a document without the attribute
  (\<^verbatim>\<open>hasattr(d, "metadata")\<close> is false).
\<close>

record document =
  page_content :: string
  metadata :: "(string \<rightharpoonup> pyval) option"

text \<open>
  Lines 29 to 31: the label and the rendered section of the document at position \<open>i\<close>.
\<close>

definition doc_title :: "nat \<Rightarrow> document \<Rightarrow> pyval" where
  "doc_title i d =
     (let meta = (case metadata d of Some m \<Rightarrow> m | None \<Rightarrow> Map.empty)
      in py_or (py_or (dict_get meta ''title'') (dict_get meta ''source''))
           (PStr (''doc_'' @ str_nat i)))"

definition render_doc :: "nat \<Rightarrow> document \<Rightarrow> string" where
  "render_doc i d = ''['' @ str_nat i @ ''] '' @ py_str (doc_title i d) @ nl @ page_content d"

text \<open>
  Lines 27 to 31: the list \<^verbatim>\<open>merged\<close> after the loop over
  \<^verbatim>\<open>enumerate(docs[:8], start=1)\<close>.
\<close>

definition merged :: "document list \<Rightarrow> string list" where
  "merged docs = map (\<lambda>(i, d). render_doc i d) (enumerate 1 (take 8 docs))"

text \<open>Lines 24 to 32: the text built from the retriever's documents.\<close>

definition format_results :: "document list \<Rightarrow> string" where
  "format_results docs =
     (if docs = [] then ''No documents found.'' else py_join (nl @ nl) (merged docs))"

text \<open>
  The label as the specification words it, to be compared with \<^const>\<open>doc_title\<close>: an
  attribute of a document is available when its metadata holds a non-empty string under
  the key; the label is the title when available, otherwise the source when available,
  otherwise \<^verbatim>\<open>doc_\<close> followed by the position.
\<close>

definition available :: "document \<Rightarrow> string \<Rightarrow> string option" where
  "available d k =
     (case metadata d of
        None \<Rightarrow> None
      | Some m \<Rightarrow>
          (case m k of Some (PStr s) \<Rightarrow> (if s = [] then None else Some s) | _ \<Rightarrow> None))"

definition spec_label :: "nat \<Rightarrow> document \<Rightarrow> string" where
  "spec_label position d =
     (case available d ''title'' of
        Some t \<Rightarrow> t
      | None \<Rightarrow>
          (case available d ''source'' of
             Some s \<Rightarrow> s
           | None \<Rightarrow> ''doc_'' @ str_nat position))"

subsection \<open>The sufficiency heuristic\<close>

definition general_knowledge_indicators :: "string list" where
  "general_knowledge_indicators =
     [''what is'', ''who is'', ''define'', ''explain'', ''history of'',
      ''when was'', ''where is'', ''how does'', ''what are'']"

text \<open>Line 120; \<^verbatim>\<open>a in b\<close> on strings is the contiguous-substring test \<^const>\<open>sublist\<close>.\<close>

definition has_general_knowledge_pattern :: "string \<Rightarrow> bool" where
  "has_general_knowledge_pattern question =
     list_ex (\<lambda>indicator. sublist indicator (lower question)) general_knowledge_indicators"

text \<open>Lines 100 to 123.\<close>

definition should_use_wikipedia :: "string \<Rightarrow> string \<Rightarrow> bool" where
  "should_use_wikipedia question retriever_results =
     (if retriever_results = [] \<or> sublist ''No documents found'' retriever_results then True
      else if length (strip retriever_results) < 200 then True
      else has_general_knowledge_pattern question \<and> length (strip retriever_results) < 500)"

text \<open>Lines 67 to 71: the decision taken in \<^verbatim>\<open>run\<close>.\<close>

definition needs_wikipedia :: "string \<Rightarrow> string \<Rightarrow> bool" where
  "needs_wikipedia question retriever_results =
     (sublist ''No documents found'' retriever_results
      \<or> length (strip retriever_results) < 100
      \<or> should_use_wikipedia question retriever_results)"

subsection \<open>The collaborators\<close>

text \<open>
  A call of a collaborator takes its argument and the world, and gives back either the
  exception it raised (\<open>Inl\<close>) or its value (\<open>Inr\<close>), with the world after the call.
  \<open>retriever\<close> is \<^verbatim>\<open>self.retriever.invoke\<close>, \<open>llm\<close> is \<^verbatim>\<open>self.llm.invoke\<close>, and
  \<open>wiki\<close> is the \<^verbatim>\<open>run\<close> method of the Wikipedia tool. The tool is not a field of
  the class: every fetch constructs it anew, on lines 36 to 38, as
  \<^verbatim>\<open>WikipediaQueryRun(api_wrapper=WikipediaAPIWrapper(top_k_results=3, lang="en"))\<close>.
  \<open>wiki_tool\<close> is that construction; it is library code that may raise like any other
  call.
\<close>

type_synonym ('a, 'w) call = "'w \<Rightarrow> (py_exception + 'a) \<times> 'w"

text \<open>The response of the model: its \<^verbatim>\<open>content\<close> attribute, \<open>None\<close> when it has none.\<close>

record response =
  content :: "pyval option"

record 'w pipeline =
  retriever :: "string \<Rightarrow> (document list, 'w) call"
  wiki_tool :: "(unit, 'w) call"
  wiki :: "string \<Rightarrow> (string, 'w) call"
  llm :: "string \<Rightarrow> (response, 'w) call"

text \<open>Lines 21 to 32.\<close>

definition get_retriever_results :: "'w pipeline \<Rightarrow> string \<Rightarrow> (string, 'w) call" where
  "get_retriever_results self query w =
     (case retriever self query w of
        (Inl e, w') \<Rightarrow> (Inl e, w')
      | (Inr docs, w') \<Rightarrow> (Inr (format_results docs), w'))"

text \<open>
  Lines 34 to 42. The construction of the tool is before the \<^verbatim>\<open>try\<close>, so an
  exception of it leaves the function; \<^verbatim>\<open>except Exception\<close> turns every exception
  of \<^verbatim>\<open>wiki.run(query)\<close> into a fixed text.
\<close>

definition get_wikipedia_results :: "'w pipeline \<Rightarrow> string \<Rightarrow> (string, 'w) call" where
  "get_wikipedia_results self query w =
     (case wiki_tool self w of
        (Inl e, w0) \<Rightarrow> (Inl e, w0)
      | (Inr u, w0) \<Rightarrow>
          (case wiki self query w0 of
             (Inl e, w') \<Rightarrow> (Inr ''Could not retrieve Wikipedia information.'', w')
           | (Inr text, w') \<Rightarrow> (Inr text, w')))"

subsection \<open>Assembling the context\<close>

text \<open>Lines 63 and 64: what the retriever text adds to \<^verbatim>\<open>context_parts\<close>.\<close>

definition corpus_part :: "string \<Rightarrow> string list" where
  "corpus_part retriever_results =
     (if retriever_results \<noteq> [] \<and> \<not> sublist ''No documents found'' retriever_results
      then [''Document corpus results:'' @ nl @ retriever_results] else [])"

text \<open>Lines 75 and 76: what the Wikipedia text adds.\<close>

definition wikipedia_part :: "string \<Rightarrow> string list" where
  "wikipedia_part wikipedia_results =
     (if wikipedia_results \<noteq> [] \<and> \<not> sublist ''Could not retrieve'' wikipedia_results
      then [''Wikipedia results:'' @ nl @ wikipedia_results] else [])"

text \<open>Lines 61 to 76: the list \<^verbatim>\<open>context_parts\<close> when line 79 is reached.\<close>

definition context_parts :: "'w pipeline \<Rightarrow> string \<Rightarrow> string \<Rightarrow> (string list, 'w) call" where
  "context_parts self question retriever_results w =
     (if needs_wikipedia question retriever_results
      then (case get_wikipedia_results self question w of
              (Inl e, w') \<Rightarrow> (Inl e, w')
            | (Inr wikipedia_results, w') \<Rightarrow>
                (Inr (corpus_part retriever_results @ wikipedia_part wikipedia_results), w'))
      else (Inr (corpus_part retriever_results), w))"

text \<open>Line 79.\<close>

definition full_context :: "string list \<Rightarrow> string" where
  "full_context parts =
     (if parts \<noteq> [] then py_join (nl @ nl) parts else ''No relevant information found.'')"

subsection \<open>The prompt and the answer\<close>

text \<open>Lines 82 to 89.\<close>

definition build_prompt :: "string \<Rightarrow> string \<Rightarrow> string" where
  "build_prompt context question =
     ''You are a helpful RAG agent. Prefer '' @ [CHR 0x27] @ ''retriever'' @ [CHR 0x27]
     @ '' for user-provided docs; use '' @ [CHR 0x27] @ ''wikipedia'' @ [CHR 0x27]
     @ '' for general knowledge. Return only the final useful answer.'' @ nl @ nl
     @ ''Available information:'' @ nl @ context @ nl @ nl
     @ ''Question: '' @ question @ nl @ nl
     @ ''Provide a comprehensive answer based on the available information:''"

text \<open>Line 92: \<^verbatim>\<open>getattr(response, "content", None) or "Could not generate answer."\<close>.\<close>

definition extract_answer :: "response \<Rightarrow> string" where
  "extract_answer resp =
     py_str (py_or (case content resp of None \<Rightarrow> PNone | Some v \<Rightarrow> v)
                   (PStr ''Could not generate answer.''))"

subsection \<open>The pipeline\<close>

text \<open>The dict returned by \<^verbatim>\<open>run\<close>, with its three keys.\<close>

record answer_result =
  question :: string
  retrieved_docs :: "document list"
  answer :: string

text \<open>
  Lines 54 to 98. An exception of a call ends the run with that exception; nothing in
  \<^verbatim>\<open>run\<close> catches one.
\<close>

definition run :: "'w pipeline \<Rightarrow> string \<Rightarrow> (answer_result, 'w) call" where
  "run self q w =
     (case retriever self q w of
        (Inl e, w1) \<Rightarrow> (Inl e, w1)
      | (Inr docs, w1) \<Rightarrow>
     (case get_retriever_results self q w1 of
        (Inl e, w2) \<Rightarrow> (Inl e, w2)
      | (Inr retriever_results, w2) \<Rightarrow>
     (case context_parts self q retriever_results w2 of
        (Inl e, w3) \<Rightarrow> (Inl e, w3)
      | (Inr parts, w3) \<Rightarrow>
     (case llm self (build_prompt (full_context parts) q) w3 of
        (Inl e, w4) \<Rightarrow> (Inl e, w4)
      | (Inr resp, w4) \<Rightarrow>
          (Inr \<lparr>question = q, retrieved_docs = docs, answer = extract_answer resp\<rparr>, w4)))))"

subsection \<open>Example inputs\<close>

text \<open>Documents with and without labels.\<close>

definition titled_doc :: document where
  "titled_doc = \<lparr>page_content = ''alpha'',
     metadata = Some [''title'' \<mapsto> PStr ''Guide'', ''source'' \<mapsto> PStr ''guide.pdf'']\<rparr>"

definition sourced_doc :: document where
  "sourced_doc = \<lparr>page_content = ''beta'',
     metadata = Some [''title'' \<mapsto> PStr [], ''source'' \<mapsto> PStr ''notes.txt'']\<rparr>"

definition bare_doc :: document where
  "bare_doc = \<lparr>page_content = ''gamma'', metadata = None\<rparr>"

definition ten_docs :: "document list" where
  "ten_docs = map (\<lambda>i. \<lparr>page_content = ''item '' @ str_nat i, metadata = None\<rparr>) [1..<11]"

text \<open>Documents whose text is 250 characters long, and two that quote an error message.\<close>

definition plain_doc :: document where
  "plain_doc = \<lparr>page_content = replicate 250 (CHR ''b''), metadata = None\<rparr>"

definition long_doc :: document where
  "long_doc = \<lparr>page_content = ''No documents found.'' @ replicate 500 (CHR ''a''),
     metadata = None\<rparr>"

definition mid_doc :: document where
  "mid_doc = \<lparr>page_content = ''No documents found in the 1990 archive; ''
       @ replicate 200 (CHR ''a''), metadata = None\<rparr>"

text \<open>
  Pipelines over a world that counts the calls of the retriever, of the tool's
  \<^verbatim>\<open>run\<close> and of the model made so far; except in \<open>broken_pipeline\<close>, where it
  raises, the construction of the Wikipedia tool succeeds. In \<open>demo_pipeline\<close> the
  retriever finds ten documents, Wikipedia is unreachable and the model answers; in
  \<open>down_pipeline\<close> the retriever is unreachable; in \<open>flaky_pipeline\<close> the retriever
  answers its first call only; in \<open>mute_pipeline\<close> the retriever finds nothing,
  Wikipedia answers and the model call fails; in \<open>blank_pipeline\<close> the model returns an
  empty \<^verbatim>\<open>content\<close>.
\<close>

definition demo_pipeline :: "nat pipeline" where
  "demo_pipeline =
     \<lparr>retriever = (\<lambda>query w. (Inr ten_docs, Suc w)),
      wiki_tool = (\<lambda>w. (Inr (), w)),
      wiki = (\<lambda>query w. (Inl (PyException ''timeout''), Suc w)),
      llm = (\<lambda>prompt w. (Inr \<lparr>content = Some (PStr ''Forty-two'')\<rparr>, Suc w))\<rparr>"

definition down_pipeline :: "nat pipeline" where
  "down_pipeline =
     \<lparr>retriever = (\<lambda>query w. (Inl (PyException ''index offline''), Suc w)),
      wiki_tool = (\<lambda>w. (Inr (), w)),
      wiki = (\<lambda>query w. (Inr ''Paris is the capital of France.'', Suc w)),
      llm = (\<lambda>prompt w. (Inr \<lparr>content = Some (PStr ''Forty-two'')\<rparr>, Suc w))\<rparr>"

definition flaky_pipeline :: "nat pipeline" where
  "flaky_pipeline =
     \<lparr>retriever = (\<lambda>query w.
        if w = 0 then (Inr [bare_doc], Suc w) else (Inl (PyException ''index offline''), Suc w)),
      wiki_tool = (\<lambda>w. (Inr (), w)),
      wiki = (\<lambda>query w. (Inr ''Paris is the capital of France.'', Suc w)),
      llm = (\<lambda>prompt w. (Inr \<lparr>content = Some (PStr ''Forty-two'')\<rparr>, Suc w))\<rparr>"

definition mute_pipeline :: "nat pipeline" where
  "mute_pipeline =
     \<lparr>retriever = (\<lambda>query w. (Inr [], Suc w)),
      wiki_tool = (\<lambda>w. (Inr (), w)),
      wiki = (\<lambda>query w. (Inr ''Paris is the capital of France.'', Suc w)),
      llm = (\<lambda>prompt w. (Inl (PyException ''rate limit''), Suc w))\<rparr>"

definition blank_pipeline :: "nat pipeline" where
  "blank_pipeline =
     \<lparr>retriever = (\<lambda>query w. (Inr [], Suc w)),
      wiki_tool = (\<lambda>w. (Inr (), w)),
      wiki = (\<lambda>query w. (Inr ''Paris is the capital of France.'', Suc w)),
      llm = (\<lambda>prompt w. (Inr \<lparr>content = Some (PStr [])\<rparr>, Suc w))\<rparr>"

definition broken_pipeline :: "nat pipeline" where
  "broken_pipeline =
     \<lparr>retriever = (\<lambda>query w. (Inr [], Suc w)),
      wiki_tool = (\<lambda>w. (Inl (PyException ''wikipedia package missing''), w)),
      wiki = (\<lambda>query w. (Inr ''Paris is the capital of France.'', Suc w)),
      llm = (\<lambda>prompt w. (Inr \<lparr>content = Some (PStr ''Forty-two'')\<rparr>, Suc w))\<rparr>"

section \<open>Properties\<close>

subsection \<open>Auxiliary facts\<close>

lemma sentinel_prefix:
  assumes "sublist ''No documents found.'' s"
  shows "sublist ''No documents found'' s"
proof -
  have "sublist ''No documents found'' (''No documents found'' @ ''.'')"
    by (rule sublist_append_rightI)
  then have "sublist ''No documents found'' ''No documents found.''" by simp
  from this assms show ?thesis by (rule sublist_order.order_trans)
qed

lemma could_not_retrieve_prefix:
  assumes "sublist ''Could not retrieve Wikipedia information.'' s"
  shows "sublist ''Could not retrieve'' s"
proof -
  have "sublist ''Could not retrieve'' (''Could not retrieve'' @ '' Wikipedia information.'')"
    by (rule sublist_append_rightI)
  then have "sublist ''Could not retrieve'' ''Could not retrieve Wikipedia information.''"
    by simp
  from this assms show ?thesis by (rule sublist_order.order_trans)
qed

lemma strip_Nil: "strip [] = []"
  by (simp add: strip_def)

lemma merged_nth:
  assumes "k < length docs" and "k < 8"
  shows "merged docs ! k = render_doc (Suc k) (docs ! k)"
  using assms by (simp add: merged_def nth_enumerate_eq)

lemma length_merged: "length (merged docs) = min (length docs) 8"
  by (simp add: merged_def)

lemma merged_long:
  assumes "8 < length docs"
  shows "merged docs = map (\<lambda>k. render_doc (Suc k) (docs ! k)) [0..<8]"
proof (rule nth_equalityI)
  show "length (merged docs) = length (map (\<lambda>k. render_doc (Suc k) (docs ! k)) [0..<8])"
    using assms by (simp add: length_merged)
next
  fix i assume "i < length (merged docs)"
  then have i: "i < 8" by (simp add: length_merged)
  then have "merged docs ! i = render_doc (Suc i) (docs ! i)"
    using assms by (intro merged_nth) simp_all
  also have "\<dots> = map (\<lambda>k. render_doc (Suc k) (docs ! k)) [0..<8] ! i"
    using i by (simp del: upt_Suc)
  finally show "merged docs ! i = map (\<lambda>k. render_doc (Suc k) (docs ! k)) [0..<8] ! i" .
qed

lemma str_nat_1_8:
  "map str_nat [1, 2, 3, 4, 5, 6, 7, 8]
     = map (\<lambda>c. [c]) ''12345678''"
  by code_simp

lemma doc_title_spec_label: "py_str (doc_title i d) = spec_label i d"
  by (auto simp: doc_title_def spec_label_def available_def py_or_def dict_get_def
      split: option.splits pyval.splits)

subsection \<open>The sufficiency heuristic\<close>

text \<open>
  C1, as amended. A retriever text whose stripped length is at least 500 and that does
  not contain \<^verbatim>\<open>No documents found\<close> never sends the pipeline to Wikipedia, whatever
  the question: the decision of lines 67 to 71 is negative, and the context is built
  from the corpus section alone, with no call made (the world is unchanged, and an
  exception of the tool cannot occur). The restriction is needed: line 68 asks for
  Wikipedia whenever the text contains that phrase, however long the text is.
\<close>

theorem needs_wikipedia_long_text:
  assumes "\<not> sublist ''No documents found'' rtext" and "500 \<le> length (strip rtext)"
  shows "\<not> needs_wikipedia q rtext
    \<and> context_parts self q rtext w = (Inr (corpus_part rtext), w)"
  using assms
  by (auto simp: context_parts_def needs_wikipedia_def should_use_wikipedia_def strip_Nil)

theorem needs_wikipedia_long_text_witness:
  "\<not> needs_wikipedia ''What is Isabelle?'' (format_results [plain_doc, plain_doc])
   \<and> context_parts broken_pipeline ''What is Isabelle?''
         (format_results [plain_doc, plain_doc]) 0
       = (Inr (corpus_part (format_results [plain_doc, plain_doc])), 0)"
proof -
  have h1: "\<not> sublist ''No documents found'' (format_results [plain_doc, plain_doc])"
    by code_simp
  have h2: "500 \<le> length (strip (format_results [plain_doc, plain_doc]))"
    by code_simp
  show ?thesis by (rule needs_wikipedia_long_text [OF h1 h2])
qed

text \<open>
  C1 as stated fails: one document of more than 500 characters that quotes the phrase
  gives a text of stripped length at least 500 for which Wikipedia is consulted.
\<close>

theorem needs_wikipedia_long_text_counterexample:
  "500 \<le> length (strip (format_results [long_doc]))
   \<and> needs_wikipedia ''hello'' (format_results [long_doc])"
  by code_simp

text \<open>
  C2, as amended. For a retriever text that does not contain \<^verbatim>\<open>No documents found\<close>
  (the phrase line 68 looks for, without a final full stop) and whose stripped length
  is at least 200 and below 500, Wikipedia is consulted exactly when the lower-cased
  question contains one of the nine patterns.
\<close>

theorem needs_wikipedia_mid_text:
  assumes "\<not> sublist ''No documents found'' rtext"
    and "200 \<le> length (strip rtext)" and "length (strip rtext) < 500"
  shows "needs_wikipedia q rtext \<longleftrightarrow>
     (\<exists>p \<in> set [''what is'', ''who is'', ''define'', ''explain'', ''history of'',
                 ''when was'', ''where is'', ''how does'', ''what are''].
        sublist p (lower q))"
proof -
  have "rtext \<noteq> []" using assms(2) by (auto simp: strip_Nil)
  then show ?thesis using assms
    by (simp add: needs_wikipedia_def should_use_wikipedia_def
        has_general_knowledge_pattern_def general_knowledge_indicators_def)
qed

theorem needs_wikipedia_mid_text_witness:
  "needs_wikipedia ''What is Isabelle?'' (format_results [plain_doc])
   \<and> \<not> needs_wikipedia ''Summarise chapter 2'' (format_results [plain_doc])"
proof -
  have h1: "\<not> sublist ''No documents found'' (format_results [plain_doc])" by code_simp
  have h2: "200 \<le> length (strip (format_results [plain_doc]))" by code_simp
  have h3: "length (strip (format_results [plain_doc])) < 500" by code_simp
  have a: "sublist ''what is'' (lower ''What is Isabelle?'')" by code_simp
  have b: "\<not> (\<exists>p \<in> set [''what is'', ''who is'', ''define'', ''explain'', ''history of'',
                 ''when was'', ''where is'', ''how does'', ''what are''].
        sublist p (lower ''Summarise chapter 2''))" by code_simp
  show ?thesis
    using needs_wikipedia_mid_text [OF h1 h2 h3, of "''What is Isabelle?''"]
      needs_wikipedia_mid_text [OF h1 h2 h3, of "''Summarise chapter 2''"] a b
    by simp
qed

text \<open>
  C2 as stated fails when the sentinel is the full sentence
  \<^verbatim>\<open>No documents found.\<close>: a text of 250 characters that has the phrase without the
  full stop does not contain the sentinel, the question has none of the patterns, and
  Wikipedia is consulted all the same.
\<close>

theorem needs_wikipedia_mid_text_counterexample:
  "\<not> sublist ''No documents found.'' (format_results [mid_doc])
   \<and> 200 \<le> length (strip (format_results [mid_doc]))
   \<and> length (strip (format_results [mid_doc])) < 500
   \<and> \<not> has_general_knowledge_pattern ''hello''
   \<and> needs_wikipedia ''hello'' (format_results [mid_doc])"
  by code_simp

text \<open>
  C3. Whatever the question, Wikipedia is consulted when the retriever text contains the
  no-documents sentinel (with or without its full stop) or when its stripped length is
  below 200.
\<close>

theorem needs_wikipedia_sentinel_or_short:
  assumes "sublist ''No documents found.'' rtext \<or> sublist ''No documents found'' rtext
           \<or> length (strip rtext) < 200"
  shows "needs_wikipedia q rtext"
  using assms sentinel_prefix [of rtext]
  by (auto simp: needs_wikipedia_def should_use_wikipedia_def)

theorem needs_wikipedia_sentinel_or_short_witness:
  "needs_wikipedia ''Summarise chapter 2'' (format_results [])
   \<and> needs_wikipedia ''Summarise chapter 2'' (format_results ten_docs)"
proof -
  have h1: "sublist ''No documents found.'' (format_results [])" by code_simp
  have h2: "length (strip (format_results ten_docs)) < 200" by code_simp
  show ?thesis
    using needs_wikipedia_sentinel_or_short [of "format_results []" "''Summarise chapter 2''"]
      needs_wikipedia_sentinel_or_short [of "format_results ten_docs" "''Summarise chapter 2''"]
      h1 h2
    by simp
qed

subsection \<open>Formatting the retrieved documents\<close>

text \<open>
  C5. The empty list is formatted as \<^verbatim>\<open>No documents found.\<close>; a list of more than
  eight documents is formatted as exactly eight sections, the \<open>k\<close>-th built from the
  \<open>k\<close>-th document and numbered \<open>k\<close> (1 to 8, in input order), joined by a blank
  line, and the documents after the eighth have no influence on the text.
\<close>

theorem format_results_sections:
  "format_results [] = ''No documents found.'' \<and>
   (8 < length docs \<longrightarrow>
      format_results docs =
        py_join (nl @ nl)
          (map (\<lambda>k. ''['' @ str_nat (k + 1) @ ''] '' @ py_str (doc_title (k + 1) (docs ! k))
                       @ nl @ page_content (docs ! k)) [0, 1, 2, 3, 4, 5, 6, 7])
      \<and> map str_nat [1, 2, 3, 4, 5, 6, 7, 8]
          = map (\<lambda>c. [c]) ''12345678''
      \<and> format_results (take 8 docs) = format_results docs)"
proof -
  have e: "[0, 1, 2, 3, 4, 5, 6, 7] = [0..<8::nat]" by (simp add: upt_rec)
  have a: "format_results [] = ''No documents found.''" by (simp add: format_results_def)
  have b: "format_results docs = py_join (nl @ nl)
          (map (\<lambda>k. ''['' @ str_nat (k + 1) @ ''] '' @ py_str (doc_title (k + 1) (docs ! k))
                       @ nl @ page_content (docs ! k)) [0, 1, 2, 3, 4, 5, 6, 7])"
    if "8 < length docs"
  proof -
    from that have "docs \<noteq> []" by auto
    then show ?thesis unfolding e using merged_long [OF that]
      by (simp add: format_results_def render_doc_def del: upt_Suc)
  qed
  have c: "format_results (take 8 docs) = format_results docs" if "8 < length docs"
    using that by (auto simp: format_results_def merged_def)
  show ?thesis using a b c str_nat_1_8 by blast
qed

theorem format_results_sections_witness:
  "8 < length ten_docs
   \<and> format_results ten_docs
       = ''[1] doc_1'' @ nl @ ''item 1'' @ nl @ nl @ ''[2] doc_2'' @ nl @ ''item 2'' @ nl @ nl
       @ ''[3] doc_3'' @ nl @ ''item 3'' @ nl @ nl @ ''[4] doc_4'' @ nl @ ''item 4'' @ nl @ nl
       @ ''[5] doc_5'' @ nl @ ''item 5'' @ nl @ nl @ ''[6] doc_6'' @ nl @ ''item 6'' @ nl @ nl
       @ ''[7] doc_7'' @ nl @ ''item 7'' @ nl @ nl @ ''[8] doc_8'' @ nl @ ''item 8''
   \<and> format_results (take 8 ten_docs) = format_results ten_docs"
proof -
  have h: "8 < length ten_docs" by (simp add: ten_docs_def)
  have v: "py_join (nl @ nl)
          (map (\<lambda>k. ''['' @ str_nat (k + 1) @ ''] '' @ py_str (doc_title (k + 1) (ten_docs ! k))
                       @ nl @ page_content (ten_docs ! k)) [0, 1, 2, 3, 4, 5, 6, 7])
       = ''[1] doc_1'' @ nl @ ''item 1'' @ nl @ nl @ ''[2] doc_2'' @ nl @ ''item 2'' @ nl @ nl
       @ ''[3] doc_3'' @ nl @ ''item 3'' @ nl @ nl @ ''[4] doc_4'' @ nl @ ''item 4'' @ nl @ nl
       @ ''[5] doc_5'' @ nl @ ''item 5'' @ nl @ nl @ ''[6] doc_6'' @ nl @ ''item 6'' @ nl @ nl
       @ ''[7] doc_7'' @ nl @ ''item 7'' @ nl @ nl @ ''[8] doc_8'' @ nl @ ''item 8''"
    by code_simp
  from format_results_sections [of ten_docs] h
  have "format_results ten_docs = py_join (nl @ nl)
          (map (\<lambda>k. ''['' @ str_nat (k + 1) @ ''] '' @ py_str (doc_title (k + 1) (ten_docs ! k))
                       @ nl @ page_content (ten_docs ! k)) [0, 1, 2, 3, 4, 5, 6, 7])"
    and t: "format_results (take 8 ten_docs) = format_results ten_docs"
    by blast+
  with v h show ?thesis by simp
qed

text \<open>
  C6. The label that the code puts into a section is the label of the specification:
  the title when available, otherwise the source when available, otherwise
  \<^verbatim>\<open>doc_\<close> and the position; and the section of the document at index \<open>k\<close> (from 0)
  of the list carries the number and the synthesized position \<open>k + 1\<close>. An attribute
  that is \<^verbatim>\<open>None\<close> or the empty string counts as not available, as the \<^verbatim>\<open>or\<close>
  of line 30 skips it.
\<close>

theorem label_preference:
  "py_str (doc_title i d) = spec_label i d \<and>
   (k < length docs \<and> k < 8 \<longrightarrow>
      merged docs ! k = ''['' @ str_nat (k + 1) @ ''] '' @ spec_label (k + 1) (docs ! k)
                         @ nl @ page_content (docs ! k))"
  using doc_title_spec_label merged_nth [of k docs] by (simp add: render_doc_def)

theorem label_preference_witness:
  "merged [titled_doc, sourced_doc, bare_doc] ! 0 = ''[1] Guide'' @ nl @ ''alpha''
   \<and> merged [titled_doc, sourced_doc, bare_doc] ! 1 = ''[2] notes.txt'' @ nl @ ''beta''
   \<and> merged [titled_doc, sourced_doc, bare_doc] ! 2 = ''[3] doc_3'' @ nl @ ''gamma''"
proof -
  let ?D = "[titled_doc, sourced_doc, bare_doc]"
  have t: "merged ?D ! k = ''['' @ str_nat (k + 1) @ ''] '' @ spec_label (k + 1) (?D ! k)
                         @ nl @ page_content (?D ! k)" if "k < 3" for k
    using label_preference [of _ _ k ?D] that by simp
  have n: "str_nat (0 + 1) = ''1''" "str_nat (1 + 1) = ''2''" "str_nat (2 + 1) = ''3''"
    by code_simp+
  have l: "spec_label (0 + 1) (?D ! 0) = ''Guide''" "spec_label (1 + 1) (?D ! 1) = ''notes.txt''"
    "spec_label (2 + 1) (?D ! 2) = ''doc_3''"
    by code_simp+
  have c: "page_content (?D ! 0) = ''alpha''" "page_content (?D ! 1) = ''beta''"
    "page_content (?D ! 2) = ''gamma''"
    by code_simp+
  have "merged ?D ! 0 = ''['' @ ''1'' @ ''] '' @ ''Guide'' @ nl @ ''alpha''"
    using t [of 0] by (simp only: n l c)
  moreover have "merged ?D ! 1 = ''['' @ ''2'' @ ''] '' @ ''notes.txt'' @ nl @ ''beta''"
    using t [of 1] by (simp only: n l c)
  moreover have "merged ?D ! 2 = ''['' @ ''3'' @ ''] '' @ ''doc_3'' @ nl @ ''gamma''"
    using t [of 2] by (simp only: n l c)
  ultimately show ?thesis by simp
qed

subsection \<open>The Wikipedia fetch\<close>

lemma get_wikipedia_results_Inr:
  assumes "wiki_tool self w = (Inr u, w0)"
  shows "\<exists>wr w'. get_wikipedia_results self query w = (Inr wr, w')"
  using assms by (auto simp: get_wikipedia_results_def split: prod.splits sum.splits)

lemma get_wikipedia_results_Inl:
  assumes "get_wikipedia_results self query w = (Inl e, w')"
  shows "wiki_tool self w = (Inl e, w')"
  using assms by (auto simp: get_wikipedia_results_def split: prod.splits sum.splits)

text \<open>
  C8, as amended. When the construction of the Wikipedia tool succeeds,
  \<^verbatim>\<open>_get_wikipedia_results\<close> returns a text: the text of the tool when its \<^verbatim>\<open>run\<close>
  returns one, and \<^verbatim>\<open>Could not retrieve Wikipedia information.\<close> when its \<^verbatim>\<open>run\<close>
  raises.
\<close>

theorem get_wikipedia_results_never_raises:
  assumes "wiki_tool self w = (Inr u, w0)"
  shows "(\<exists>wr w'. get_wikipedia_results self query w = (Inr wr, w'))
   \<and> (\<forall>e w'. wiki self query w0 = (Inl e, w') \<longrightarrow>
         get_wikipedia_results self query w
           = (Inr ''Could not retrieve Wikipedia information.'', w'))
   \<and> (\<forall>wr w'. wiki self query w0 = (Inr wr, w') \<longrightarrow>
         get_wikipedia_results self query w = (Inr wr, w'))"
  using assms get_wikipedia_results_Inr [OF assms, of query]
  by (simp add: get_wikipedia_results_def)

theorem get_wikipedia_results_never_raises_witness:
  "get_wikipedia_results demo_pipeline ''Paris'' 0
     = (Inr ''Could not retrieve Wikipedia information.'', 1)
   \<and> get_wikipedia_results down_pipeline ''Paris'' 0
     = (Inr ''Paris is the capital of France.'', 1)"
proof -
  have t: "wiki_tool demo_pipeline 0 = (Inr (), 0)" "wiki_tool down_pipeline 0 = (Inr (), 0)"
    by (simp_all add: demo_pipeline_def down_pipeline_def)
  have a: "wiki demo_pipeline ''Paris'' 0 = (Inl (PyException ''timeout''), 1)"
    by (simp add: demo_pipeline_def)
  have b: "wiki down_pipeline ''Paris'' 0 = (Inr ''Paris is the capital of France.'', 1)"
    by (simp add: down_pipeline_def)
  show ?thesis
    using get_wikipedia_results_never_raises [OF t(1), of "''Paris''"] a
      get_wikipedia_results_never_raises [OF t(2), of "''Paris''"] b
    by blast
qed

text \<open>
  C8 as stated fails: the tool is constructed before the \<^verbatim>\<open>try\<close> of line 39, and
  when the construction raises, the fetch raises that exception.
\<close>

theorem get_wikipedia_results_never_raises_counterexample:
  "get_wikipedia_results broken_pipeline ''Paris'' 0
     = (Inl (PyException ''wikipedia package missing''), 0)"
  by code_simp

subsection \<open>The assembled context\<close>

lemma py_join_hd: "x \<noteq> [] \<Longrightarrow> hd (py_join sep (x # xs)) = hd x"
  by (cases xs) simp_all

lemma full_context_hd: "x \<noteq> [] \<Longrightarrow> hd (full_context (x # xs)) = hd x"
  by (simp add: full_context_def py_join_hd)

lemma corpus_part_cases:
  "corpus_part rr = [] \<or> corpus_part rr = [''Document corpus results:'' @ nl @ rr]"
  by (simp add: corpus_part_def)

lemma wikipedia_part_cases:
  "wikipedia_part wr = [] \<or> wikipedia_part wr = [''Wikipedia results:'' @ nl @ wr]"
  by (simp add: wikipedia_part_def)

lemma context_parts_Inr:
  assumes "needs_wikipedia q rr \<longrightarrow> (\<exists>u w0. wiki_tool self w = (Inr u, w0))"
  shows "\<exists>parts w'. context_parts self q rr w = (Inr parts, w')"
proof (cases "needs_wikipedia q rr")
  case True
  with assms obtain u w0 where "wiki_tool self w = (Inr u, w0)" by blast
  from get_wikipedia_results_Inr [OF this, of q] True show ?thesis
    by (auto simp: context_parts_def)
next
  case False
  then show ?thesis by (simp add: context_parts_def)
qed

lemma context_parts_shape:
  assumes "context_parts self q rr w = (Inr parts, w')"
  shows "(\<not> needs_wikipedia q rr \<and> parts = corpus_part rr \<and> w' = w)
     \<or> (needs_wikipedia q rr
          \<and> (\<exists>wr. get_wikipedia_results self q w = (Inr wr, w')
                \<and> parts = corpus_part rr @ wikipedia_part wr))"
  using assms
  by (auto simp: context_parts_def split: if_splits prod.splits sum.splits)

lemma section_hd:
  assumes "parts = corpus_part rr @ ws" and "ws = [] \<or> ws = wikipedia_part wr"
    and "parts \<noteq> []"
  shows "hd (full_context parts) = CHR ''D'' \<or> hd (full_context parts) = CHR ''W''"
proof (cases "corpus_part rr")
  case Nil
  with assms have "parts = [''Wikipedia results:'' @ nl @ wr]"
    using wikipedia_part_cases [of wr] by auto
  then show ?thesis by (simp add: full_context_def)
next
  case (Cons a as)
  then have "a = ''Document corpus results:'' @ nl @ rr"
    using corpus_part_cases [of rr] by auto
  with Cons assms(1) show ?thesis by (simp add: full_context_hd)
qed

lemma full_context_sentinel_iff:
  assumes "parts = corpus_part rr @ ws" and "ws = [] \<or> ws = wikipedia_part wr"
  shows "(full_context parts = ''No relevant information found.'') = (parts = [])"
proof (cases "parts = []")
  case True
  then show ?thesis by (simp add: full_context_def)
next
  case False
  from section_hd [OF assms False]
  have "full_context parts \<noteq> ''No relevant information found.''" by auto
  with False show ?thesis by simp
qed

text \<open>
  C7, as amended. Let \<open>parts\<close> be the sections collected for a retriever text \<open>rr\<close>.
  They are the corpus section \<open>cs\<close> followed by the Wikipedia section \<open>ws\<close>, each
  present or not, and the context is \<^verbatim>\<open>No relevant information found.\<close> exactly when
  both are absent. The corpus section is present exactly when \<open>rr\<close> is not empty and
  does not contain \<^verbatim>\<open>No documents found\<close>, and is then \<open>rr\<close> under its heading. The
  Wikipedia section is present exactly when Wikipedia was consulted and its text
  \<open>wr\<close> is not empty and does not contain \<^verbatim>\<open>Could not retrieve\<close>, and is then \<open>wr\<close>
  under its heading; when Wikipedia was not consulted no call was made. Hence no
  section comes from a text with one of the two sentinels. Two sections are joined
  corpus first with a blank line between them, and a single section is the context as
  it is.
\<close>

theorem context_assembly:
  assumes "context_parts self q rr w = (Inr parts, w')"
  shows "\<exists>cs ws. parts = cs @ ws
    \<and> (full_context parts = ''No relevant information found.'') = (cs = [] \<and> ws = [])
    \<and> cs = (if rr \<noteq> [] \<and> \<not> sublist ''No documents found'' rr
            then [''Document corpus results:'' @ nl @ rr] else [])
    \<and> (\<not> needs_wikipedia q rr \<longrightarrow> ws = [] \<and> w' = w)
    \<and> (needs_wikipedia q rr \<longrightarrow>
          (\<exists>wr. get_wikipedia_results self q w = (Inr wr, w')
             \<and> ws = (if wr \<noteq> [] \<and> \<not> sublist ''Could not retrieve'' wr
                     then [''Wikipedia results:'' @ nl @ wr] else [])
             \<and> (ws \<noteq> [] \<longrightarrow> \<not> sublist ''Could not retrieve Wikipedia information.'' wr)))
    \<and> (cs \<noteq> [] \<longrightarrow> \<not> sublist ''No documents found.'' rr)
    \<and> (cs \<noteq> [] \<and> ws \<noteq> [] \<longrightarrow> full_context parts = hd cs @ nl @ nl @ hd ws)
    \<and> (cs \<noteq> [] \<and> ws = [] \<longrightarrow> full_context parts = hd cs)
    \<and> (cs = [] \<and> ws \<noteq> [] \<longrightarrow> full_context parts = hd ws)"
proof -
  let ?cs = "corpus_part rr"
  have cs: "?cs = (if rr \<noteq> [] \<and> \<not> sublist ''No documents found'' rr
            then [''Document corpus results:'' @ nl @ rr] else [])"
    by (simp add: corpus_part_def)
  have c: "\<not> sublist ''No documents found.'' rr" if "?cs \<noteq> []"
    using that sentinel_prefix [of rr] by (auto simp: corpus_part_def split: if_splits)
  have j1: "full_context (?cs @ []) = hd ?cs" if "?cs \<noteq> []"
    using that corpus_part_cases [of rr] by (auto simp: full_context_def)
  from context_parts_shape [OF assms] show ?thesis
  proof
    assume a: "\<not> needs_wikipedia q rr \<and> parts = corpus_part rr \<and> w' = w"
    then have p: "parts = ?cs @ []" by simp
    have s: "(full_context parts = ''No relevant information found.'') = (?cs = [] \<and> [] = ([]::string list))"
      using full_context_sentinel_iff [OF p, of "[]"] p by simp
    show ?thesis
      apply (rule exI [of _ ?cs])
      apply (rule exI [of _ "[]"])
      using a p s cs c j1 by simp
  next
    assume "needs_wikipedia q rr
          \<and> (\<exists>wr. get_wikipedia_results self q w = (Inr wr, w')
                \<and> parts = corpus_part rr @ wikipedia_part wr)"
    then obtain wr where n: "needs_wikipedia q rr"
      and g: "get_wikipedia_results self q w = (Inr wr, w')"
      and p: "parts = ?cs @ wikipedia_part wr" by blast
    let ?ws = "wikipedia_part wr"
    have ws: "?ws = (if wr \<noteq> [] \<and> \<not> sublist ''Could not retrieve'' wr
                     then [''Wikipedia results:'' @ nl @ wr] else [])"
      by (simp add: wikipedia_part_def)
    have v: "\<not> sublist ''Could not retrieve Wikipedia information.'' wr" if "?ws \<noteq> []"
      using that could_not_retrieve_prefix [of wr]
      by (auto simp: wikipedia_part_def split: if_splits)
    have s: "(full_context parts = ''No relevant information found.'') = (?cs = [] \<and> ?ws = [])"
      using full_context_sentinel_iff [OF p, of wr] p by simp
    have j2: "full_context parts = hd ?cs @ nl @ nl @ hd ?ws" if "?cs \<noteq> [] \<and> ?ws \<noteq> []"
      using that p corpus_part_cases [of rr] wikipedia_part_cases [of wr]
      by (auto simp: full_context_def)
    have j1': "full_context parts = hd ?cs" if "?cs \<noteq> [] \<and> ?ws = []"
      using that p j1 by simp
    have j0: "full_context parts = hd ?ws" if "?cs = [] \<and> ?ws \<noteq> []"
      using that p wikipedia_part_cases [of wr] by (auto simp: full_context_def)
    have w: "\<exists>wr. get_wikipedia_results self q w = (Inr wr, w')
             \<and> ?ws = (if wr \<noteq> [] \<and> \<not> sublist ''Could not retrieve'' wr
                     then [''Wikipedia results:'' @ nl @ wr] else [])
             \<and> (?ws \<noteq> [] \<longrightarrow> \<not> sublist ''Could not retrieve Wikipedia information.'' wr)"
      using g ws v by blast
    show ?thesis
      apply (rule exI [of _ ?cs])
      apply (rule exI [of _ ?ws])
      using n p s cs c w j2 j1' j0 by blast
  qed
qed

theorem context_assembly_witness:
  "context_parts demo_pipeline ''Paris'' (format_results []) 0 = (Inr [], 1)
   \<and> full_context [] = ''No relevant information found.''
   \<and> context_parts down_pipeline ''Paris'' (format_results [bare_doc]) 0
       = (Inr [''Document corpus results:'' @ nl @ ''[1] doc_1'' @ nl @ ''gamma'',
               ''Wikipedia results:'' @ nl @ ''Paris is the capital of France.''], 1)
   \<and> full_context [''Document corpus results:'' @ nl @ ''[1] doc_1'' @ nl @ ''gamma'',
               ''Wikipedia results:'' @ nl @ ''Paris is the capital of France.'']
       \<noteq> ''No relevant information found.''"
proof -
  have a: "context_parts demo_pipeline ''Paris'' (format_results []) 0 = (Inr [], 1)"
    by code_simp
  have b: "context_parts down_pipeline ''Paris'' (format_results [bare_doc]) 0
       = (Inr [''Document corpus results:'' @ nl @ ''[1] doc_1'' @ nl @ ''gamma'',
               ''Wikipedia results:'' @ nl @ ''Paris is the capital of France.''], 1)"
    by code_simp
  from context_assembly [OF a]
  have "full_context [] = ''No relevant information found.''" by auto
  moreover from context_assembly [OF b]
  have "full_context [''Document corpus results:'' @ nl @ ''[1] doc_1'' @ nl @ ''gamma'',
               ''Wikipedia results:'' @ nl @ ''Paris is the capital of France.'']
       \<noteq> ''No relevant information found.''" by auto
  ultimately show ?thesis using a b by simp
qed

text \<open>
  C7 as stated fails when a section qualifies under the conditions the claim names: the
  text of one document that quotes the phrase without its full stop is not empty and
  does not contain the sentinel \<^verbatim>\<open>No documents found.\<close>, so the corpus section
  qualifies; Wikipedia is consulted and fails; and the context is the sentinel
  \<^verbatim>\<open>No relevant information found.\<close> all the same.
\<close>

theorem context_assembly_counterexample:
  "format_results [mid_doc] \<noteq> []
   \<and> \<not> sublist ''No documents found.'' (format_results [mid_doc])
   \<and> context_parts demo_pipeline ''hello'' (format_results [mid_doc]) 0 = (Inr [], 1)
   \<and> full_context [] = ''No relevant information found.''"
  by code_simp

subsection \<open>The run\<close>

lemma run_Inr:
  assumes "retriever self q w = (Inr docs, w1)"
    and "get_retriever_results self q w1 = (Inr rr, w2)"
    and "context_parts self q rr w2 = (Inr parts, w3)"
    and "llm self (build_prompt (full_context parts) q) w3 = (Inr resp, w4)"
  shows "run self q w
    = (Inr \<lparr>question = q, retrieved_docs = docs, answer = extract_answer resp\<rparr>, w4)"
  using assms by (simp add: run_def)

lemma extract_answer_nonempty: "extract_answer resp \<noteq> []"
proof (cases "content resp")
  case None
  then show ?thesis by (simp add: extract_answer_def py_or_def)
next
  case (Some v)
  then show ?thesis by (cases v) (simp_all add: extract_answer_def py_or_def)
qed

text \<open>
  C4. When the retriever answers both of its calls (the one of line 55 and the one inside
  \<^verbatim>\<open>_get_retriever_results\<close>) and, in case Wikipedia is consulted, the construction of
  the Wikipedia tool succeeds, the context is assembled without an exception, and
  whenever the model then returns a response, \<^verbatim>\<open>run\<close> returns the record of the three
  fields: the question, the list that the first retriever call returned, whole and
  as it was, and a non-empty answer.
\<close>

theorem run_returns_record:
  assumes "retriever self q w = (Inr docs, w1)" and "retriever self q w1 = (Inr docs', w2)"
    and "needs_wikipedia q (format_results docs') \<longrightarrow> (\<exists>u w0. wiki_tool self w2 = (Inr u, w0))"
  shows "\<exists>parts w3. context_parts self q (format_results docs') w2 = (Inr parts, w3)
     \<and> (\<forall>resp w4. llm self (build_prompt (full_context parts) q) w3 = (Inr resp, w4) \<longrightarrow>
           run self q w
             = (Inr \<lparr>question = q, retrieved_docs = docs, answer = extract_answer resp\<rparr>, w4)
           \<and> extract_answer resp \<noteq> [])"
proof -
  from context_parts_Inr [OF assms(3)] obtain parts w3 where
    c: "context_parts self q (format_results docs') w2 = (Inr parts, w3)" by blast
  have g: "get_retriever_results self q w1 = (Inr (format_results docs'), w2)"
    using assms(2) by (simp add: get_retriever_results_def)
  show ?thesis using c run_Inr [OF assms(1) g c] extract_answer_nonempty by blast
qed

theorem run_returns_record_witness:
  "run demo_pipeline ''Summarise the items'' 0
     = (Inr \<lparr>question = ''Summarise the items'', retrieved_docs = ten_docs,
              answer = ''Forty-two''\<rparr>, 4)
   \<and> length ten_docs = 10"
proof -
  have h1: "retriever demo_pipeline ''Summarise the items'' 0 = (Inr ten_docs, 1)"
    by (simp add: demo_pipeline_def)
  have h2: "retriever demo_pipeline ''Summarise the items'' 1 = (Inr ten_docs, 2)"
    by (simp add: demo_pipeline_def)
  have h3: "needs_wikipedia ''Summarise the items'' (format_results ten_docs)
      \<longrightarrow> (\<exists>u w0. wiki_tool demo_pipeline 2 = (Inr u, w0))"
    by (simp add: demo_pipeline_def)
  have c: "context_parts demo_pipeline ''Summarise the items'' (format_results ten_docs) 2
     = (Inr [''Document corpus results:'' @ nl @ format_results ten_docs], 3)"
    by code_simp
  have m: "llm demo_pipeline p 3 = (Inr \<lparr>content = Some (PStr ''Forty-two'')\<rparr>, 4)" for p
    by (simp add: demo_pipeline_def)
  have e: "extract_answer \<lparr>content = Some (PStr ''Forty-two'')\<rparr> = ''Forty-two''"
    by (simp add: extract_answer_def py_or_def)
  have "run demo_pipeline ''Summarise the items'' 0
     = (Inr \<lparr>question = ''Summarise the items'', retrieved_docs = ten_docs,
              answer = ''Forty-two''\<rparr>, 4)"
    using run_returns_record [OF h1 h2 h3] c m e by auto
  then show ?thesis by (simp add: ten_docs_def)
qed

text \<open>
  C9. An exception of the retriever, at its first call or at the call inside
  \<^verbatim>\<open>_get_retriever_results\<close>, and an exception of the model call are what \<^verbatim>\<open>run\<close>
  ends with: the same exception, and no record.
\<close>

theorem run_propagates_exceptions:
  "(retriever self q w = (Inl e, w1) \<longrightarrow> run self q w = (Inl e, w1))
   \<and> (retriever self q w = (Inr docs, w1) \<and> retriever self q w1 = (Inl e, w2) \<longrightarrow>
         run self q w = (Inl e, w2))
   \<and> (retriever self q w = (Inr docs, w1) \<and> get_retriever_results self q w1 = (Inr rr, w2)
       \<and> context_parts self q rr w2 = (Inr parts, w3)
       \<and> llm self (build_prompt (full_context parts) q) w3 = (Inl e, w4) \<longrightarrow>
         run self q w = (Inl e, w4))"
  by (simp add: run_def get_retriever_results_def)

theorem run_propagates_exceptions_witness:
  "run down_pipeline ''Paris'' 0 = (Inl (PyException ''index offline''), 1)
   \<and> run flaky_pipeline ''Paris'' 0 = (Inl (PyException ''index offline''), 2)
   \<and> run mute_pipeline ''Paris'' 0 = (Inl (PyException ''rate limit''), 4)"
proof -
  have a: "retriever down_pipeline ''Paris'' 0 = (Inl (PyException ''index offline''), 1)"
    by (simp add: down_pipeline_def)
  have b1: "retriever flaky_pipeline ''Paris'' 0 = (Inr [bare_doc], 1)"
    and b2: "retriever flaky_pipeline ''Paris'' 1 = (Inl (PyException ''index offline''), 2)"
    by (simp_all add: flaky_pipeline_def)
  have c1: "retriever mute_pipeline ''Paris'' 0 = (Inr [], 1)"
    and c2: "get_retriever_results mute_pipeline ''Paris'' 1 = (Inr ''No documents found.'', 2)"
    by (simp_all add: mute_pipeline_def get_retriever_results_def format_results_def)
  have c3: "context_parts mute_pipeline ''Paris'' ''No documents found.'' 2
      = (Inr [''Wikipedia results:'' @ nl @ ''Paris is the capital of France.''], 3)"
    by code_simp
  have c4: "llm mute_pipeline p 3 = (Inl (PyException ''rate limit''), 4)" for p
    by (simp add: mute_pipeline_def)
  from run_propagates_exceptions [of down_pipeline "''Paris''" 0 "PyException ''index offline''" 1] a
  have r1: "run down_pipeline ''Paris'' 0 = (Inl (PyException ''index offline''), 1)"
    by blast
  from run_propagates_exceptions
    [of flaky_pipeline "''Paris''" 0 "PyException ''index offline''" 1 "[bare_doc]" 2] b1 b2
  have r2: "run flaky_pipeline ''Paris'' 0 = (Inl (PyException ''index offline''), 2)"
    by blast
  from run_propagates_exceptions
    [of mute_pipeline "''Paris''" 0 "PyException ''rate limit''" 1 "[]" 2
        "''No documents found.''" "[''Wikipedia results:'' @ nl @ ''Paris is the capital of France.'']"
        3 4] c1 c2 c3 c4
  have r3: "run mute_pipeline ''Paris'' 0 = (Inl (PyException ''rate limit''), 4)"
    by blast
  from r1 r2 r3 show ?thesis by blast
qed

text \<open>
  C10. A response without a \<^verbatim>\<open>content\<close> attribute, with \<^verbatim>\<open>content\<close> equal to
  \<^verbatim>\<open>None\<close>, or with the empty string as \<^verbatim>\<open>content\<close> yields the answer
  \<^verbatim>\<open>Could not generate answer.\<close>, and that is the answer of the record that
  \<^verbatim>\<open>run\<close> returns when the model call gave this response.
\<close>

theorem empty_content_answer:
  assumes "content resp = None \<or> content resp = Some PNone \<or> content resp = Some (PStr [])"
  shows "extract_answer resp = ''Could not generate answer.''
    \<and> (retriever self q w = (Inr docs, w1) \<and> get_retriever_results self q w1 = (Inr rr, w2)
        \<and> context_parts self q rr w2 = (Inr parts, w3)
        \<and> llm self (build_prompt (full_context parts) q) w3 = (Inr resp, w4) \<longrightarrow>
          run self q w
            = (Inr \<lparr>question = q, retrieved_docs = docs,
                     answer = ''Could not generate answer.''\<rparr>, w4))"
proof -
  have a: "extract_answer resp = ''Could not generate answer.''"
    using assms by (auto simp: extract_answer_def py_or_def)
  show ?thesis using a run_Inr [of self q w docs w1 rr w2 parts w3 resp w4] by simp
qed

theorem empty_content_answer_witness:
  "extract_answer \<lparr>content = None\<rparr> = ''Could not generate answer.''
   \<and> extract_answer \<lparr>content = Some PNone\<rparr> = ''Could not generate answer.''
   \<and> run blank_pipeline ''Paris'' 0
       = (Inr \<lparr>question = ''Paris'', retrieved_docs = [],
                answer = ''Could not generate answer.''\<rparr>, 4)"
proof -
  have c1: "retriever blank_pipeline ''Paris'' 0 = (Inr [], 1)"
    and c2: "get_retriever_results blank_pipeline ''Paris'' 1 = (Inr ''No documents found.'', 2)"
    by (simp_all add: blank_pipeline_def get_retriever_results_def format_results_def)
  have c3: "context_parts blank_pipeline ''Paris'' ''No documents found.'' 2
      = (Inr [''Wikipedia results:'' @ nl @ ''Paris is the capital of France.''], 3)"
    by code_simp
  have c4: "llm blank_pipeline p 3 = (Inr \<lparr>content = Some (PStr [])\<rparr>, 4)" for p
    by (simp add: blank_pipeline_def)
  have r: "run blank_pipeline ''Paris'' 0
       = (Inr \<lparr>question = ''Paris'', retrieved_docs = [],
                answer = ''Could not generate answer.''\<rparr>, 4)"
    using empty_content_answer
      [of "\<lparr>content = Some (PStr [])\<rparr>" blank_pipeline "''Paris''" 0 "[]" 1
          "''No documents found.''" 2
          "[''Wikipedia results:'' @ nl @ ''Paris is the capital of France.'']" 3 4]
      c1 c2 c3 c4
    by simp
  show ?thesis
    using empty_content_answer [of "\<lparr>content = None\<rparr>", THEN conjunct1]
      empty_content_answer [of "\<lparr>content = Some PNone\<rparr>", THEN conjunct1] r
    by simp
qed

end
